theory Spec2Isabelle
  imports Main
begin

section \<open>The activities sign-up page (src/static/app.js)\<close>

text \<open>
  The script is one \<open>DOMContentLoaded\<close> handler that declares three functions
  (\<open>fetchActivities\<close>, \<open>unregisterParticipant\<close>, \<open>showMessage\<close>) and the
  submit handler of the sign-up form. They share four page elements. The model keeps
  those elements, the pending timers, the requests issued and the console in one
  record, and every function of the script becomes a function on that record.

  An \<open>async\<close> function is modelled by two functions: \<open>f\<close> is the code that runs
  up to the first \<open>await\<close> (it issues the request), and \<open>f_resume\<close> is the code
  that runs once the awaited response is there. The two awaits of each function
  (\<open>await fetch(...)\<close>, \<open>await response.json()\<close>) are delivered together, as one
  value of type \<open>fetch_result\<close>: the script changes nothing between them.

  Strings are the UTF-8 bytes of the script's strings. The capacity of an activity
  is an integer. The script computes with doubles: on the safe integers (magnitude at
  most \<open>2^53 - 1\<close>) that is exact integer arithmetic and the result prints as
  decimal digits; outside them the model computes nothing and says so.
\<close>

subsection \<open>Values that cross the network boundary\<close>

text \<open>
  A parsed JSON value. A number is held as the text \<open>Number.prototype.toString\<close>
  gives for it (\<open>''0''\<close> for both zeros); an object is the list of its own
  properties in enumeration order.
\<close>

datatype json =
    JNull
  | JBool bool
  | JNum string
  | JStr string
  | JArr "json list"
  | JObj "(string \<times> json) list"

text \<open>What a \<open>try\<close> block of the script can catch.\<close>

datatype js_error =
    NetworkError  \<comment> \<open>\<open>fetch\<close> rejected: no response\<close>
  | SyntaxError   \<comment> \<open>\<open>response.json()\<close> rejected: the body is not JSON\<close>
  | TypeError     \<comment> \<open>a property of \<open>null\<close> was read\<close>

text \<open>
  What the two awaits yield: no response at all, or a response with its status and
  its body as \<open>response.json()\<close> parses it (\<open>None\<close> when the body is not JSON).
\<close>

datatype 'b fetch_result =
    Rejected
  | Response nat "'b option"

definition response_ok :: "nat \<Rightarrow> bool" where
  "response_ok status \<longleftrightarrow> 200 \<le> status \<and> status \<le> 299"

record details =
  description :: string
  schedule :: string
  max_participants :: int
  participants :: "string list"

type_synonym activities = "(string \<times> details) list"

datatype http_method = GET | POST | DELETE

record request =
  req_method :: http_method
  req_url :: string

subsection \<open>The page\<close>

text \<open>
  A click listener of the page is the closure \<open>() => unregisterParticipant(name,
  participant)\<close>; it is kept as its two captured variables.
\<close>

datatype listener = UnregisterClick string string

text \<open>
  A node is an element (tag, class name, listeners, children), a text node or a
  comment. Markup that was assigned through \<open>innerHTML\<close> is kept as the assigned
  text, \<open>Markup s\<close>; it stands for the nodes the browser's parser makes of
  \<open>s\<close>, which \<open>parse_markup\<close> below computes. \<open>Unmodelled\<close> stands for content
  the model does not compute.
\<close>

datatype node =
    Element (tagName: string) (className: string) (listeners: "listener list")
      (childNodes: "node list")
  | Text string
  | Markup string
  | Comment string
  | Unmodelled

record select_option =
  option_value :: string
  option_text :: string

record message_div =
  textContent :: string
  classList :: "string list"

record page =
  activitiesList :: "node list"            \<comment> \<open>children of \<open>#activities-list\<close>\<close>
  activitySelect :: "select_option list"   \<comment> \<open>options of \<open>#activity\<close>\<close>
  messageDiv :: message_div                \<comment> \<open>\<open>#message\<close>\<close>
  email_value :: string                    \<comment> \<open>\<open>#email\<close>, its current value\<close>
  activity_value :: string                 \<comment> \<open>\<open>#activity\<close>, its current value\<close>
  email_default :: string                  \<comment> \<open>what a form reset gives \<open>#email\<close>\<close>
  activity_default :: string               \<comment> \<open>what a form reset gives \<open>#activity\<close>\<close>
  timers :: "nat list"                     \<comment> \<open>due times of the pending hide callbacks\<close>
  now :: nat                               \<comment> \<open>the clock, in milliseconds\<close>
  requests :: "request list"               \<comment> \<open>every \<open>fetch\<close> call so far, oldest first\<close>
  console :: "(string \<times> js_error) list"    \<comment> \<open>every \<open>console.error\<close> call so far\<close>

subsection \<open>Platform operations the script calls\<close>

text \<open>
  Assigning \<open>innerHTML\<close> and \<open>textContent\<close> replaces all children. Assigned markup
  is kept as it was assigned; \<open>parse_markup\<close> gives the nodes the browser makes of it.
\<close>

definition innerHTML_nodes :: "string \<Rightarrow> node list" where
  "innerHTML_nodes s = (if s = [] then [] else [Markup s])"

definition textContent_nodes :: "string \<Rightarrow> node list" where
  "textContent_nodes s = (if s = [] then [] else [Text s])"

text \<open>
  The nodes the browser's fragment parser makes of assigned markup, for the markup
  this model reads: text without \<open>&\<close>, NUL or CR; the tags \<open><h4>\<close>, \<open><p>\<close>,
  \<open><strong>\<close> and their end tags, written exactly so and properly nested, with no
  \<open><p>\<close> or \<open><h4>\<close> inside a \<open><p>\<close> and no element inside one of its own kind;
  and a comment that is opened by \<open><!--\<close> and runs to the end of the markup (what
  follows has no \<open>-\<close>, NUL or CR and does not start with \<open>>\<close>). Elements still
  open at the end are closed there. On any other markup the result is \<open>None\<close>.
\<close>

datatype token = Chars string | StartTag string | EndTag string | CommentTok string

definition plain_char :: "char \<Rightarrow> bool" where
  "plain_char c \<longleftrightarrow> c \<notin> set [CHR ''<'', CHR ''&'', CHR 0x00, CHR 0x0D]"

definition starts_with :: "string \<Rightarrow> string \<Rightarrow> bool" where
  "starts_with lit s \<longleftrightarrow> take (length lit) s = lit"

definition tag_at :: "string \<Rightarrow> (string \<times> token) option" where
  "tag_at s =
     find (\<lambda>(lit, tok). starts_with lit s)
       [(''h4>'', StartTag ''h4''), (''/h4>'', EndTag ''h4''),
        (''p>'', StartTag ''p''), (''/p>'', EndTag ''p''),
        (''strong>'', StartTag ''strong''), (''/strong>'', EndTag ''strong'')]"

definition comment_to_end :: "string \<Rightarrow> bool" where
  "comment_to_end s \<longleftrightarrow>
     CHR ''-'' \<notin> set s \<and> CHR 0x00 \<notin> set s \<and> CHR 0x0D \<notin> set s \<and> \<not> starts_with ''>'' s"

definition chars :: "string \<Rightarrow> token list" where
  "chars acc = (if acc = [] then [] else [Chars acc])"

fun tokenize :: "string \<Rightarrow> string \<Rightarrow> token list option" where
  "tokenize acc [] = Some (chars acc)"
| "tokenize acc (c # cs) =
     (if plain_char c then tokenize (acc @ [c]) cs
      else if c = CHR ''<'' then
        (if starts_with ''!--'' cs then
           (if comment_to_end (drop 3 cs) then Some (chars acc @ [CommentTok (drop 3 cs)])
            else None)
         else
           (case tag_at cs of
              None \<Rightarrow> None
            | Some (lit, tok) \<Rightarrow>
                (case tokenize [] (drop (length lit) cs) of
                   None \<Rightarrow> None
                 | Some ts \<Rightarrow> Some (chars acc @ tok # ts))))
      else None)"

text \<open>
  Building the tree. The stack holds, for every open element, its tag and the nodes
  that came before it in its parent.
\<close>

definition may_open :: "string \<Rightarrow> string list \<Rightarrow> bool" where
  "may_open t open_tags \<longleftrightarrow>
     t \<notin> set open_tags \<and> (t = ''strong'' \<or> ''p'' \<notin> set open_tags)"

fun close_all :: "(string \<times> node list) list \<Rightarrow> node list \<Rightarrow> node list" where
  "close_all [] cur = cur"
| "close_all ((t, before) # stack) cur = close_all stack (before @ [Element t [] [] cur])"

fun build :: "token list \<Rightarrow> (string \<times> node list) list \<Rightarrow> node list \<Rightarrow> node list option" where
  "build [] stack cur = Some (close_all stack cur)"
| "build (Chars s # ts) stack cur = build ts stack (cur @ [Text s])"
| "build (CommentTok s # ts) stack cur = build ts stack (cur @ [Comment s])"
| "build (StartTag t # ts) stack cur =
     (if may_open t (map fst stack) then build ts ((t, cur) # stack) [] else None)"
| "build (EndTag t # ts) stack cur =
     (case stack of
        [] \<Rightarrow> None
      | (t', before) # stack' \<Rightarrow>
          if t' = t then build ts stack' (before @ [Element t [] [] cur]) else None)"

definition parse_markup :: "string \<Rightarrow> node list option" where
  "parse_markup s = (case tokenize [] s of None \<Rightarrow> None | Some ts \<Rightarrow> build ts [] [])"

text \<open>
  Decimal digits of an integer. A template literal prints a safe integer so; past
  the safe integers the subtraction of doubles rounds, and from \<open>1e21\<close> on the
  printed text has an exponent.
\<close>

definition safe_integer :: "int \<Rightarrow> bool" where
  "safe_integer i \<longleftrightarrow> - (2 ^ 53 - 1) \<le> i \<and> i \<le> 2 ^ 53 - 1"

fun show_nat :: "nat \<Rightarrow> string" where
  "show_nat n =
     (if n < 10 then [char_of (48 + n)]
      else show_nat (n div 10) @ [char_of (48 + n mod 10)])"

definition show_int :: "int \<Rightarrow> string" where
  "show_int i = (if i < 0 then CHR ''-'' # show_nat (nat (- i)) else show_nat (nat i))"

text \<open>Reading decimal digits back, to say what number a printed text shows.\<close>

definition read_nat :: "string \<Rightarrow> nat" where
  "read_nat s = foldl (\<lambda>acc c. 10 * acc + (of_char c - 48)) 0 s"

definition read_int :: "string \<Rightarrow> int" where
  "read_int s =
     (case s of
        [] \<Rightarrow> 0
      | c # cs \<Rightarrow> if c = CHR ''-'' then - int (read_nat cs) else int (read_nat s))"

text \<open>
  \<open>encodeURIComponent\<close>: every byte outside the unreserved marks is written as
  \<open>%XX\<close> with upper-case hexadecimal digits.
\<close>

definition uri_unreserved :: "char \<Rightarrow> bool" where
  "uri_unreserved c \<longleftrightarrow>
     c \<in> set ''ABCDEFGHIJKLMNOPQRSTUVWXYZabcdefghijklmnopqrstuvwxyz0123456789-_.!~*'()''"

definition hex_digit :: "nat \<Rightarrow> char" where
  "hex_digit n = ''0123456789ABCDEF'' ! (n mod 16)"

definition pct_encode :: "char \<Rightarrow> string" where
  "pct_encode c =
     (if uri_unreserved c then [c]
      else [CHR ''%'', hex_digit (of_char c div 16), hex_digit (of_char c mod 16)])"

definition encodeURIComponent :: "string \<Rightarrow> string" where
  "encodeURIComponent s = concat (map pct_encode s)"

text \<open>Percent-decoding, as the server applies it to a path segment or a query value.\<close>

definition hex_value :: "char \<Rightarrow> nat" where
  "hex_value c =
     (let n = of_char c in
      if 48 \<le> n \<and> n \<le> 57 then n - 48
      else if 65 \<le> n \<and> n \<le> 70 then n - 55
      else if 97 \<le> n \<and> n \<le> 102 then n - 87
      else 0)"

fun pct_decode :: "string \<Rightarrow> string" where
  "pct_decode [] = []"
| "pct_decode (c # cs) =
     (if c = CHR ''%'' then
        (case cs of
           h # l # rest \<Rightarrow> char_of (hex_value h * 16 + hex_value l) # pct_decode rest
         | _ \<Rightarrow> c # pct_decode cs)
      else c # pct_decode cs)"

text \<open>
  The class attribute: \<open>className = s\<close> parses \<open>s\<close> into an ordered set of tokens
  separated by ASCII whitespace; \<open>classList.add\<close> and \<open>classList.remove\<close> work on
  that set.
\<close>

definition ascii_whitespace :: "char \<Rightarrow> bool" where
  "ascii_whitespace c \<longleftrightarrow> c \<in> set [CHR 0x09, CHR 0x0A, CHR 0x0C, CHR 0x0D, CHR 0x20]"

fun split_tokens :: "string \<Rightarrow> string \<Rightarrow> string list" where
  "split_tokens cur [] = (if cur = [] then [] else [cur])"
| "split_tokens cur (c # cs) =
     (if ascii_whitespace c then (if cur = [] then [] else [cur]) @ split_tokens [] cs
      else split_tokens (cur @ [c]) cs)"

definition classList_add :: "string \<Rightarrow> string list \<Rightarrow> string list" where
  "classList_add t cs = (if t \<in> set cs then cs else cs @ [t])"

definition classList_remove :: "string \<Rightarrow> string list \<Rightarrow> string list" where
  "classList_remove t cs = filter (\<lambda>c. c \<noteq> t) cs"

definition className_tokens :: "string \<Rightarrow> string list" where
  "className_tokens s = fold classList_add (split_tokens [] s) []"

text \<open>
  Reading the property \<open>message\<close> or \<open>detail\<close> of a parsed body: \<open>null\<close> has no
  properties and the read throws; an object gives its own property or
  \<open>undefined\<close> (\<open>None\<close>); every other value gives \<open>undefined\<close>, since no prototype
  defines either name.
\<close>

fun get_property :: "json \<Rightarrow> string \<Rightarrow> js_error + json option" where
  "get_property JNull key = Inl TypeError"
| "get_property (JObj kvs) key = Inr (map_of kvs key)"
| "get_property _ key = Inr None"

text \<open>Truthiness, and \<open>a || b\<close> with \<open>b\<close> a constant.\<close>

fun js_truthy :: "json option \<Rightarrow> bool" where
  "js_truthy None = False"
| "js_truthy (Some JNull) = False"
| "js_truthy (Some (JBool b)) = b"
| "js_truthy (Some (JNum s)) = (s \<noteq> ''0'')"
| "js_truthy (Some (JStr s)) = (s \<noteq> [])"
| "js_truthy (Some (JArr xs)) = True"
| "js_truthy (Some (JObj kvs)) = True"

definition js_or :: "json option \<Rightarrow> json \<Rightarrow> json option" where
  "js_or a b = (if js_truthy a then a else Some b)"

text \<open>
  String conversion of a value. An array joins the texts of its elements, \<open>null\<close>
  giving the empty text. An object has no callable \<open>toString\<close> of its own, since its
  properties are parsed values: with an own property of that name the conversion
  throws, without one the inherited method gives \<open>[object Object]\<close>.
\<close>

fun join_with :: "string \<Rightarrow> string list \<Rightarrow> string" where
  "join_with sep [] = []"
| "join_with sep [x] = x"
| "join_with sep (x # y # ys) = x @ sep @ join_with sep (y # ys)"

fun js_toString :: "json \<Rightarrow> js_error + string"
  and element_texts :: "json list \<Rightarrow> js_error + string list" where
  "js_toString JNull = Inr ''null''"
| "js_toString (JBool b) = Inr (if b then ''true'' else ''false'')"
| "js_toString (JNum s) = Inr s"
| "js_toString (JStr s) = Inr s"
| "js_toString (JArr xs) =
     (case element_texts xs of Inl e \<Rightarrow> Inl e | Inr ss \<Rightarrow> Inr (join_with '','' ss))"
| "js_toString (JObj kvs) =
     (if ''toString'' \<in> set (map fst kvs) then Inl TypeError else Inr ''[object Object]'')"
| "element_texts [] = Inr []"
| "element_texts (x # xs) =
     (case (if x = JNull then Inr [] else js_toString x) of
        Inl e \<Rightarrow> Inl e
      | Inr s \<Rightarrow> (case element_texts xs of Inl e \<Rightarrow> Inl e | Inr ss \<Rightarrow> Inr (s # ss)))"

text \<open>
  The \<open>textContent\<close> setter takes a nullable string: \<open>null\<close> and \<open>undefined\<close> both
  give the empty text, every other value is converted, and the conversion can throw.
  \<open>nullable_DOMString\<close> is the text where the conversion succeeds.
\<close>

fun to_DOMString :: "json option \<Rightarrow> js_error + string" where
  "to_DOMString None = Inr []"
| "to_DOMString (Some JNull) = Inr []"
| "to_DOMString (Some v) = js_toString v"

definition nullable_DOMString :: "json option \<Rightarrow> string" where
  "nullable_DOMString text = (case to_DOMString text of Inl e \<Rightarrow> [] | Inr s \<Rightarrow> s)"

subsection \<open>showMessage and the hide timers\<close>

text \<open>
  The first statement of \<open>showMessage\<close> assigns \<open>textContent\<close>, which converts the
  text. \<open>showMessage\<close> is the function on a text whose conversion succeeds. When the
  conversion throws, nothing has changed yet and the error reaches the caller:
  \<open>showMessage_call\<close> is the call as a handler makes it inside its \<open>try\<close> block.
\<close>

definition showMessage :: "json option \<Rightarrow> string \<Rightarrow> page \<Rightarrow> page" where
  "showMessage text type st =
     (let m1 = (messageDiv st)\<lparr>textContent := nullable_DOMString text\<rparr>;
          m2 = m1\<lparr>classList := className_tokens type\<rparr>;
          m3 = m2\<lparr>classList := classList_remove ''hidden'' (classList m2)\<rparr>
      in st\<lparr>messageDiv := m3, timers := timers st @ [now st + 5000]\<rparr>)"

definition showMessage_call :: "json option \<Rightarrow> string \<Rightarrow> page \<Rightarrow> (js_error \<times> page) + page" where
  "showMessage_call text type st =
     (case to_DOMString text of
        Inl e \<Rightarrow> Inl (e, st)
      | Inr s \<Rightarrow> Inr (showMessage text type st))"



definition visible :: "message_div \<Rightarrow> bool" where
  "visible m \<longleftrightarrow> ''hidden'' \<notin> set (classList m)"

subsection \<open>fetchActivities\<close>

text \<open>
  The parsed activity map is taken in the shape the server gives it: an object whose
  properties, in enumeration order, map an activity name to its details. The function
  never reads the status of the response.
\<close>

text \<open>
  \<open>details.max_participants - details.participants.length\<close>: the difference, when
  the capacity and the difference are safe integers.
\<close>

definition spotsLeft :: "details \<Rightarrow> int option" where
  "spotsLeft d =
     (let r = max_participants d - int (length (participants d))
      in if safe_integer (max_participants d) \<and> safe_integer r then Some r else None)"

definition participant_li :: "string \<Rightarrow> string \<Rightarrow> node" where
  "participant_li name participant =
     Element ''li'' [] []
       [Element ''span'' ''participant-email'' [] (textContent_nodes participant),
        Element ''button'' ''delete-participant-btn'' [UnregisterClick name participant]
          (textContent_nodes [CHR 0xE2, CHR 0x9C, CHR 0x95])]"

definition participantsDiv :: "string \<Rightarrow> details \<Rightarrow> node" where
  "participantsDiv name d =
     Element ''div'' ''activity-participants'' []
       [Element ''h5'' [] [] (textContent_nodes ''Participants''),
        (if length (participants d) > 0 then
           Element ''ul'' ''participants-list'' [] (map (participant_li name) (participants d))
         else
           Element ''p'' ''no-participants'' []
             (textContent_nodes ''No participants yet - be the first to sign up!''))]"

text \<open>The template literal that is assigned to \<open>activityCard.innerHTML\<close>.\<close>

definition card_markup :: "string \<Rightarrow> details \<Rightarrow> string option" where
  "card_markup name d =
     (case spotsLeft d of
        None \<Rightarrow> None
      | Some r \<Rightarrow>
          Some (''\<newline>          <h4>'' @ name @ ''</h4>\<newline>          <p>'' @ description d
            @ ''</p>\<newline>          <p><strong>Schedule:</strong> '' @ schedule d
            @ ''</p>\<newline>          <p><strong>Availability:</strong> '' @ show_int r
            @ '' spots left</p>\<newline>        ''))"

definition activityCard :: "string \<Rightarrow> details \<Rightarrow> node" where
  "activityCard name d =
     Element ''div'' ''activity-card'' []
       ((case card_markup name d of None \<Rightarrow> [Unmodelled] | Some s \<Rightarrow> innerHTML_nodes s)
        @ [participantsDiv name d])"

text \<open>One round of the \<open>forEach\<close> over \<open>Object.entries(activities)\<close>.\<close>

definition render_activity :: "string \<times> details \<Rightarrow> page \<Rightarrow> page" where
  "render_activity entry st =
     (case entry of (name, d) \<Rightarrow>
        st\<lparr>activitiesList := activitiesList st @ [activityCard name d],
           activitySelect := activitySelect st
             @ [\<lparr>option_value = name, option_text = name\<rparr>]\<rparr>)"

definition fetchActivities :: "page \<Rightarrow> page" where
  "fetchActivities st =
     st\<lparr>requests := requests st @ [\<lparr>req_method = GET, req_url = ''/activities''\<rparr>]\<rparr>"

definition fetchActivities_try :: "activities fetch_result \<Rightarrow> page \<Rightarrow> (js_error \<times> page) + page" where
  "fetchActivities_try r st =
     (case r of
        Rejected \<Rightarrow> Inl (NetworkError, st)
      | Response status None \<Rightarrow> Inl (SyntaxError, st)
      | Response status (Some acts) \<Rightarrow>
          Inr (fold render_activity acts (st\<lparr>activitiesList := innerHTML_nodes []\<rparr>)))"

definition fetchActivities_resume :: "activities fetch_result \<Rightarrow> page \<Rightarrow> page" where
  "fetchActivities_resume r st =
     (case fetchActivities_try r st of
        Inr st' \<Rightarrow> st'
      | Inl (e, st') \<Rightarrow>
          st'\<lparr>activitiesList :=
                innerHTML_nodes ''<p>Failed to load activities. Please try again later.</p>'',
              console := console st' @ [(''Error fetching activities:'', e)]\<rparr>)"

subsection \<open>unregisterParticipant\<close>

definition unregisterParticipant :: "string \<Rightarrow> string \<Rightarrow> page \<Rightarrow> page" where
  "unregisterParticipant activityName email st =
     st\<lparr>requests := requests st @
          [\<lparr>req_method = DELETE,
            req_url = ''/activities/'' @ encodeURIComponent activityName
                      @ ''/unregister?email='' @ encodeURIComponent email\<rparr>]\<rparr>"

definition unregisterParticipant_try :: "json fetch_result \<Rightarrow> page \<Rightarrow> (js_error \<times> page) + page" where
  "unregisterParticipant_try r st =
     (case r of
        Rejected \<Rightarrow> Inl (NetworkError, st)
      | Response status None \<Rightarrow> Inl (SyntaxError, st)
      | Response status (Some result) \<Rightarrow>
          if response_ok status then
            (let st1 = fetchActivities st in
             case get_property result ''message'' of
               Inl e \<Rightarrow> Inl (e, st1)
             | Inr text \<Rightarrow> showMessage_call text ''success'' st1)
          else
            (case get_property result ''detail'' of
               Inl e \<Rightarrow> Inl (e, st)
             | Inr detail \<Rightarrow>
                 showMessage_call (js_or detail (JStr ''An error occurred'')) ''error'' st))"

definition unregisterParticipant_resume :: "json fetch_result \<Rightarrow> page \<Rightarrow> page" where
  "unregisterParticipant_resume r st =
     (case unregisterParticipant_try r st of
        Inr st' \<Rightarrow> st'
      | Inl (e, st') \<Rightarrow>
          (let st2 = showMessage (Some (JStr ''Failed to unregister. Please try again.''))
                       ''error'' st'
           in st2\<lparr>console := console st2 @ [(''Error unregistering:'', e)]\<rparr>))"

text \<open>A click on a delete button runs the listener that was bound to it.\<close>

fun click :: "listener \<Rightarrow> page \<Rightarrow> page" where
  "click (UnregisterClick name participant) st = unregisterParticipant name participant st"

subsection \<open>The submit handler of the sign-up form\<close>

definition signupForm_reset :: "page \<Rightarrow> page" where
  "signupForm_reset st =
     st\<lparr>email_value := email_default st, activity_value := activity_default st\<rparr>"

definition signupForm_submit :: "page \<Rightarrow> page" where
  "signupForm_submit st =
     (let email = email_value st;
          activity = activity_value st
      in st\<lparr>requests := requests st @
             [\<lparr>req_method = POST,
               req_url = ''/activities/'' @ encodeURIComponent activity
                         @ ''/signup?email='' @ encodeURIComponent email\<rparr>]\<rparr>)"

definition signupForm_submit_try :: "json fetch_result \<Rightarrow> page \<Rightarrow> (js_error \<times> page) + page" where
  "signupForm_submit_try r st =
     (case r of
        Rejected \<Rightarrow> Inl (NetworkError, st)
      | Response status None \<Rightarrow> Inl (SyntaxError, st)
      | Response status (Some result) \<Rightarrow>
          if response_ok status then
            (case get_property result ''message'' of
               Inl e \<Rightarrow> Inl (e, st)
             | Inr text \<Rightarrow>
                 (case showMessage_call text ''success'' st of
                    Inl thrown \<Rightarrow> Inl thrown
                  | Inr st1 \<Rightarrow> Inr (fetchActivities (signupForm_reset st1))))
          else
            (case get_property result ''detail'' of
               Inl e \<Rightarrow> Inl (e, st)
             | Inr detail \<Rightarrow>
                 showMessage_call (js_or detail (JStr ''An error occurred'')) ''error'' st))"

definition signupForm_submit_resume :: "json fetch_result \<Rightarrow> page \<Rightarrow> page" where
  "signupForm_submit_resume r st =
     (case signupForm_submit_try r st of
        Inr st' \<Rightarrow> st'
      | Inl (e, st') \<Rightarrow>
          (let st2 = showMessage (Some (JStr ''Failed to sign up. Please try again.''))
                       ''error'' st'
           in st2\<lparr>console := console st2 @ [(''Error signing up:'', e)]\<rparr>))"

subsection \<open>A page to run the script on\<close>

text \<open>
  The markup of the page is not part of the script. This is a page as a first load
  could leave it: a loading note in the list, one placeholder option, the message
  hidden, nothing typed, no timer, no request.
\<close>

definition blank_page :: page where
  "blank_page =
     \<lparr>activitiesList = [Markup ''<p>Loading activities...</p>''],
      activitySelect = [\<lparr>option_value = [], option_text = ''-- Select an activity --''\<rparr>],
      messageDiv = \<lparr>textContent = [], classList = [''hidden'']\<rparr>,
      email_value = [], activity_value = [],
      email_default = [], activity_default = [],
      timers = [], now = 0, requests = [], console = []\<rparr>"


text \<open>Two answers of the server, and a page with the form filled in.\<close>

definition not_found :: "json fetch_result" where
  "not_found = Response 400 (Some (JObj [(''detail'', JStr ''Participant not found'')]))"

definition signed_up :: "json fetch_result" where
  "signed_up = Response 200 (Some (JObj [(''message'', JStr ''Signed up b@x.com'')]))"

definition filled_form :: page where
  "filled_form = blank_page\<lparr>email_value := ''b@x.com'', activity_value := ''Chess Club''\<rparr>"

definition chess_details :: details where
  "chess_details =
     \<lparr>description = ''d'', schedule = ''Mon 3pm'', max_participants = 10,
      participants = [''a@x.com'']\<rparr>"

text \<open>The same activity with a description that opens a comment.\<close>

definition comment_details :: details where
  "comment_details =
     \<lparr>description = ''<!--'', schedule = ''Mon 3pm'', max_participants = 10,
      participants = [''a@x.com'']\<rparr>"

definition empty_details :: details where
  "empty_details =
     \<lparr>description = ''e'', schedule = ''Tue 4pm'', max_participants = 5, participants = []\<rparr>"

text \<open>The server answers \<open>GET /activities\<close> with the one activity \<open>Chess Club\<close>.\<close>

definition chess_map :: "activities fetch_result" where
  "chess_map = Response 200 (Some [(''Chess Club'', chess_details)])"

section \<open>Properties\<close>

declare show_nat.simps [simp del]

subsection \<open>Printed numbers\<close>

lemma read_nat_snoc: "read_nat (s @ [c]) = 10 * read_nat s + (of_char c - 48)"
  by (simp add: read_nat_def)

lemma read_show_nat: "read_nat (show_nat n) = n"
proof (induction n rule: show_nat.induct)
  case (1 n)
  show ?case
  proof (cases "n < 10")
    case True
    then show ?thesis by (simp add: read_nat_def show_nat.simps)
  next
    case False
    have "read_nat (show_nat n) = read_nat (show_nat (n div 10) @ [char_of (48 + n mod 10)])"
      using False by (subst show_nat.simps) simp
    also have "\<dots> = 10 * (n div 10) + n mod 10"
      using 1 False by (simp add: read_nat_snoc)
    finally show ?thesis by simp
  qed
qed

lemma show_nat_digits:
  "c \<in> set (show_nat n) \<Longrightarrow> 48 \<le> (of_char c :: nat) \<and> (of_char c :: nat) \<le> 57"
proof (induction n rule: show_nat.induct)
  case (1 n)
  show ?case
  proof (cases "n < 10")
    case True
    with 1(2) show ?thesis by (simp add: show_nat.simps)
  next
    case False
    from 1(2) False have "c \<in> set (show_nat (n div 10)) \<or> c = char_of (48 + n mod 10)"
      by (subst (asm) show_nat.simps) auto
    then show ?thesis
    proof
      assume "c \<in> set (show_nat (n div 10))"
      with 1(1) False show ?thesis by simp
    next
      assume c: "c = char_of (48 + n mod 10)"
      have "n mod 10 < 10" by simp
      then have "(of_char c :: nat) = 48 + n mod 10" unfolding c by simp
      then show ?thesis by simp
    qed
  qed
qed

lemma show_nat_nonempty: "show_nat n \<noteq> []"
  by (subst show_nat.simps) simp

lemma read_show_int: "read_int (show_int i) = i"
proof (cases "i < 0")
  case True
  then show ?thesis by (simp add: show_int_def read_int_def read_show_nat)
next
  case False
  obtain c cs where s: "show_nat (nat i) = c # cs"
    using show_nat_nonempty [of "nat i"] by (cases "show_nat (nat i)") auto
  have "c \<in> set (show_nat (nat i))" by (simp add: s)
  from show_nat_digits [OF this] have "c \<noteq> CHR ''-''" by auto
  moreover have "read_nat (c # cs) = nat i" using read_show_nat [of "nat i"] by (simp add: s)
  ultimately show ?thesis using False by (simp add: show_int_def read_int_def s)
qed

lemma show_int_9: "show_int 9 = ''9''"
  by code_simp

subsection \<open>What a successful fetch renders\<close>

lemma fold_render_activity:
  "fold render_activity acts st =
     st\<lparr>activitiesList := activitiesList st @ map (\<lambda>(name, d). activityCard name d) acts,
        activitySelect := activitySelect st
          @ map (\<lambda>(name, d). \<lparr>option_value = name, option_text = name\<rparr>) acts\<rparr>"
  by (induction acts arbitrary: st) (auto simp: render_activity_def)

lemma fetchActivities_resume_success:
  "fetchActivities_resume (Response status (Some acts)) st =
     st\<lparr>activitiesList := map (\<lambda>(name, d). activityCard name d) acts,
        activitySelect := activitySelect st
          @ map (\<lambda>(name, d). \<lparr>option_value = name, option_text = name\<rparr>) acts\<rparr>"
  by (simp add: fetchActivities_resume_def fetchActivities_try_def fold_render_activity
      innerHTML_nodes_def)

subsection \<open>What the browser makes of a card's markup\<close>

lemma plain_char_iff:
  "plain_char c \<longleftrightarrow> c \<noteq> CHR ''<'' \<and> c \<noteq> CHR ''&'' \<and> c \<noteq> CHR 0x00 \<and> c \<noteq> CHR 0x0D"
  by (simp add: plain_char_def)

lemma plain_show_nat: "list_all plain_char (show_nat n)"
proof -
  have "plain_char c" if "c \<in> set (show_nat n)" for c
  proof -
    from show_nat_digits [OF that]
    have "48 \<le> (of_char c :: nat)" and "(of_char c :: nat) \<le> 57" by simp_all
    then show ?thesis by (auto simp: plain_char_iff)
  qed
  then show ?thesis by (simp add: list_all_iff)
qed

lemma plain_show_int: "list_all plain_char (show_int i)"
  by (simp add: show_int_def plain_show_nat plain_char_iff)

lemma tokenize_plain:
  "list_all plain_char s \<Longrightarrow> tokenize acc (s @ rest) = tokenize (acc @ s) rest"
  by (induction s arbitrary: acc) simp_all

lemma parse_plain_card:
  assumes "list_all plain_char name" "list_all plain_char desc" "list_all plain_char sched"
  shows "parse_markup (''\<newline>          <h4>'' @ name @ ''</h4>\<newline>          <p>'' @ desc
            @ ''</p>\<newline>          <p><strong>Schedule:</strong> '' @ sched
            @ ''</p>\<newline>          <p><strong>Availability:</strong> '' @ show_int r
            @ '' spots left</p>\<newline>        '') =
         Some [Text ''\<newline>          '',
               Element ''h4'' [] [] (textContent_nodes name),
               Text ''\<newline>          '',
               Element ''p'' [] [] (textContent_nodes desc),
               Text ''\<newline>          '',
               Element ''p'' [] []
                 [Element ''strong'' [] [] [Text ''Schedule:''], Text ('' '' @ sched)],
               Text ''\<newline>          '',
               Element ''p'' [] []
                 [Element ''strong'' [] [] [Text ''Availability:''],
                  Text ('' '' @ show_int r @ '' spots left'')],
               Text ''\<newline>        '']"
  using assms
  by (simp add: parse_markup_def tokenize_plain plain_show_int plain_char_def starts_with_def
      tag_at_def chars_def may_open_def textContent_nodes_def)

text \<open>The failure notice of the list is one paragraph.\<close>

lemma failure_notice_is_one_paragraph:
  "parse_markup ''<p>Failed to load activities. Please try again later.</p>'' =
     Some [Element ''p'' [] [] [Text ''Failed to load activities. Please try again later.'']]"
  by (simp add: parse_markup_def plain_char_def starts_with_def tag_at_def chars_def may_open_def)

text \<open>
  Where the name, the description and the schedule of an activity hold no markup
  (no \<open><\<close>, \<open>&\<close>, NUL or CR) and its capacity and the difference are safe integers,
  the card of the activity shows the difference: of the markup assigned to the card
  the browser makes, among the other lines, the availability paragraph with the
  decimal digits of \<open>max_participants\<close> minus the length of \<open>participants\<close> before
  \<open>spots left\<close>, and the digits read back as that number.
\<close>

lemma plain_card_shows_spots_left:
  assumes "i < length acts" and "acts ! i = (name, d)"
    and "list_all plain_char name"
    and "list_all plain_char (description d)"
    and "list_all plain_char (schedule d)"
    and "safe_integer (max_participants d)"
    and "safe_integer (max_participants d - int (length (participants d)))"
  shows "\<exists>m. childNodes (activitiesList (fetchActivities_resume (Response status (Some acts)) st) ! i)
               = [Markup m, participantsDiv name d]
           \<and> parse_markup m =
               Some [Text ''\<newline>          '',
                     Element ''h4'' [] [] (textContent_nodes name),
                     Text ''\<newline>          '',
                     Element ''p'' [] [] (textContent_nodes (description d)),
                     Text ''\<newline>          '',
                     Element ''p'' [] []
                       [Element ''strong'' [] [] [Text ''Schedule:''], Text ('' '' @ schedule d)],
                     Text ''\<newline>          '',
                     Element ''p'' [] []
                       [Element ''strong'' [] [] [Text ''Availability:''],
                        Text ('' '' @ show_int (max_participants d - int (length (participants d)))
                              @ '' spots left'')],
                     Text ''\<newline>        '']
           \<and> read_int (show_int (max_participants d - int (length (participants d))))
               = max_participants d - int (length (participants d))"
proof -
  let ?r = "max_participants d - int (length (participants d))"
  let ?m = "''\<newline>          <h4>'' @ name @ ''</h4>\<newline>          <p>'' @ description d
            @ ''</p>\<newline>          <p><strong>Schedule:</strong> '' @ schedule d
            @ ''</p>\<newline>          <p><strong>Availability:</strong> '' @ show_int ?r
            @ '' spots left</p>\<newline>        ''"
  have "card_markup name d = Some ?m"
    using assms(6,7) by (simp add: card_markup_def spotsLeft_def Let_def)
  then have "activityCard name d =
      Element ''div'' ''activity-card'' [] [Markup ?m, participantsDiv name d]"
    by (simp add: activityCard_def innerHTML_nodes_def)
  then have "childNodes (activitiesList (fetchActivities_resume (Response status (Some acts)) st) ! i)
      = [Markup ?m, participantsDiv name d]"
    using assms(1,2) by (simp add: fetchActivities_resume_success)
  moreover note parse_plain_card [OF assms(3,4,5), of ?r]
  moreover note read_show_int [of ?r]
  ultimately show ?thesis by blast
qed

text \<open>
  C1 does not hold of the script for every activity. The name, the description and
  the schedule are written into the markup of the card as they are, so markup in
  them is parsed with the rest. For \<open>Chess Club\<close> with ten places, one participant
  and the description \<open><!--\<close>, the script assigns markup that still carries
  \<open>9 spots left\<close>, but the browser reads everything after the description as one
  comment: the card has its heading, one paragraph that holds only that comment, and
  the roster, and no availability line is displayed.
\<close>

theorem comment_in_description_hides_spots_left:
  "childNodes (activitiesList
      (fetchActivities_resume (Response 200 (Some [(''Chess Club'', comment_details)])) blank_page) ! 0) =
     [Markup ''\<newline>          <h4>Chess Club</h4>\<newline>          <p><!--</p>\<newline>          <p><strong>Schedule:</strong> Mon 3pm</p>\<newline>          <p><strong>Availability:</strong> 9 spots left</p>\<newline>        '',
      participantsDiv ''Chess Club'' comment_details]
   \<and> parse_markup ''\<newline>          <h4>Chess Club</h4>\<newline>          <p><!--</p>\<newline>          <p><strong>Schedule:</strong> Mon 3pm</p>\<newline>          <p><strong>Availability:</strong> 9 spots left</p>\<newline>        '' =
     Some [Text ''\<newline>          '',
           Element ''h4'' [] [] [Text ''Chess Club''],
           Text ''\<newline>          '',
           Element ''p'' [] []
             [Comment ''</p>\<newline>          <p><strong>Schedule:</strong> Mon 3pm</p>\<newline>          <p><strong>Availability:</strong> 9 spots left</p>\<newline>        '']]"
proof -
  have "show_int (10 - int (length [''a@x.com''])) = ''9''"
    by (simp add: show_int_9)
  then have "card_markup ''Chess Club'' comment_details =
      Some ''\<newline>          <h4>Chess Club</h4>\<newline>          <p><!--</p>\<newline>          <p><strong>Schedule:</strong> Mon 3pm</p>\<newline>          <p><strong>Availability:</strong> 9 spots left</p>\<newline>        ''"
    by (simp add: card_markup_def spotsLeft_def safe_integer_def comment_details_def)
  then have "childNodes (activitiesList
      (fetchActivities_resume (Response 200 (Some [(''Chess Club'', comment_details)])) blank_page) ! 0) =
     [Markup ''\<newline>          <h4>Chess Club</h4>\<newline>          <p><!--</p>\<newline>          <p><strong>Schedule:</strong> Mon 3pm</p>\<newline>          <p><strong>Availability:</strong> 9 spots left</p>\<newline>        '',
      participantsDiv ''Chess Club'' comment_details]"
    by (simp add: fetchActivities_resume_success activityCard_def innerHTML_nodes_def)
  moreover have "parse_markup ''\<newline>          <h4>Chess Club</h4>\<newline>          <p><!--</p>\<newline>          <p><strong>Schedule:</strong> Mon 3pm</p>\<newline>          <p><strong>Availability:</strong> 9 spots left</p>\<newline>        '' =
     Some [Text ''\<newline>          '',
           Element ''h4'' [] [] [Text ''Chess Club''],
           Text ''\<newline>          '',
           Element ''p'' [] []
             [Comment ''</p>\<newline>          <p><strong>Schedule:</strong> Mon 3pm</p>\<newline>          <p><strong>Availability:</strong> 9 spots left</p>\<newline>        '']]"
    by (simp add: parse_markup_def plain_char_def starts_with_def tag_at_def chars_def
        may_open_def comment_to_end_def)
  ultimately show ?thesis by simp
qed

subsection \<open>Messages and their timers\<close>

lemma className_tokens_error: "className_tokens ''error'' = [''error'']"
  by code_simp

lemma className_tokens_success: "className_tokens ''success'' = [''success'']"
  by code_simp

lemma nullable_DOMString_string [simp]: "nullable_DOMString (Some (JStr s)) = s"
  by (simp add: nullable_DOMString_def)

lemma nullable_DOMString_undefined [simp]: "nullable_DOMString None = []"
  by (simp add: nullable_DOMString_def)

lemma showMessage_call_string [simp]:
  "showMessage_call (Some (JStr s)) type st = Inr (showMessage (Some (JStr s)) type st)"
  by (simp add: showMessage_call_def)

lemma messageDiv_showMessage:
  "messageDiv (showMessage text type st) =
     \<lparr>textContent = nullable_DOMString text,
      classList = classList_remove ''hidden'' (className_tokens type)\<rparr>"
  by (simp add: showMessage_def Let_def)

lemma showMessage_frame:
  "activitiesList (showMessage text type st) = activitiesList st"
  "activitySelect (showMessage text type st) = activitySelect st"
  "requests (showMessage text type st) = requests st"
  "console (showMessage text type st) = console st"
  "now (showMessage text type st) = now st"
  "email_value (showMessage text type st) = email_value st"
  "activity_value (showMessage text type st) = activity_value st"
  "email_default (showMessage text type st) = email_default st"
  "activity_default (showMessage text type st) = activity_default st"
  by (simp_all add: showMessage_def Let_def)


lemma visible_showMessage: "visible (messageDiv (showMessage text type st))"
  by (simp add: messageDiv_showMessage visible_def classList_remove_def)








subsection \<open>Answers to the two mutating requests\<close>

lemma unregister_resume_not_ok:
  assumes "\<not> response_ok status" and "get_property result ''detail'' = Inr detail"
    and "to_DOMString (js_or detail (JStr ''An error occurred'')) = Inr s"
  shows "unregisterParticipant_resume (Response status (Some result)) st =
           showMessage (js_or detail (JStr ''An error occurred'')) ''error'' st"
  using assms
  by (simp add: unregisterParticipant_resume_def unregisterParticipant_try_def
      showMessage_call_def)


lemma unregister_resume_caught:
  assumes "unregisterParticipant_try r st = Inl (e, st')"
  shows "unregisterParticipant_resume r st =
           (showMessage (Some (JStr ''Failed to unregister. Please try again.'')) ''error'' st')
             \<lparr>console := console st' @ [(''Error unregistering:'', e)]\<rparr>"
  using assms by (simp add: unregisterParticipant_resume_def Let_def showMessage_frame)

lemma submit_resume_caught:
  assumes "signupForm_submit_try r st = Inl (e, st')"
  shows "signupForm_submit_resume r st =
           (showMessage (Some (JStr ''Failed to sign up. Please try again.'')) ''error'' st')
             \<lparr>console := console st' @ [(''Error signing up:'', e)]\<rparr>"
  using assms by (simp add: signupForm_submit_resume_def Let_def showMessage_frame)

lemma shown_error:
  "classList (messageDiv (showMessage text ''error'' st)) = [''error'']"
  by (simp add: messageDiv_showMessage className_tokens_error classList_remove_def)

lemma shown_success:
  "classList (messageDiv (showMessage text ''success'' st)) = [''success'']"
  by (simp add: messageDiv_showMessage className_tokens_success classList_remove_def)

lemma unregister_not_ok_frame:
  assumes "\<not> response_ok status"
  shows "requests (unregisterParticipant_resume (Response status body) st) = requests st
    \<and> activitiesList (unregisterParticipant_resume (Response status body) st) = activitiesList st
    \<and> activitySelect (unregisterParticipant_resume (Response status body) st) = activitySelect st
    \<and> classList (messageDiv (unregisterParticipant_resume (Response status body) st)) = [''error'']
    \<and> visible (messageDiv (unregisterParticipant_resume (Response status body) st))"
proof (cases body)
  case None
  have "unregisterParticipant_try (Response status body) st = Inl (SyntaxError, st)"
    by (simp add: None unregisterParticipant_try_def)
  from unregister_resume_caught [OF this] show ?thesis
    by (simp add: showMessage_frame shown_error visible_showMessage)
next
  case (Some result)
  show ?thesis
  proof (cases "get_property result ''detail''")
    case (Inl e)
    have "unregisterParticipant_try (Response status body) st = Inl (e, st)"
      using assms by (simp add: Some Inl unregisterParticipant_try_def)
    from unregister_resume_caught [OF this] show ?thesis
      by (simp add: showMessage_frame shown_error visible_showMessage)
  next
    case (Inr detail)
    show ?thesis
    proof (cases "to_DOMString (js_or detail (JStr ''An error occurred''))")
      case (Inl e)
      have "unregisterParticipant_try (Response status body) st = Inl (e, st)"
        using assms by (simp add: Some Inr Inl unregisterParticipant_try_def showMessage_call_def)
      from unregister_resume_caught [OF this] show ?thesis
        by (simp add: showMessage_frame shown_error visible_showMessage)
    next
      case converted: (Inr s)
      from unregister_resume_not_ok [OF assms Inr converted] show ?thesis
        by (simp add: Some showMessage_frame shown_error visible_showMessage)
    qed
  qed
qed

lemma unregister_refresh_only_ok:
  assumes neq: "requests (unregisterParticipant_resume r st) \<noteq> requests st"
  shows "\<exists>s result. r = Response s (Some result) \<and> response_ok s
           \<and> requests (unregisterParticipant_resume r st)
               = requests st @ [\<lparr>req_method = GET, req_url = ''/activities''\<rparr>]"
proof (cases r)
  case Rejected
  have "unregisterParticipant_try r st = Inl (NetworkError, st)"
    by (simp add: Rejected unregisterParticipant_try_def)
  from unregister_resume_caught [OF this] neq show ?thesis
    by (simp add: showMessage_frame)
next
  case (Response s body)
  show ?thesis
  proof (cases "response_ok s")
    case False
    from unregister_not_ok_frame [OF False, of body st] neq Response show ?thesis by simp
  next
    case True
    show ?thesis
    proof (cases body)
      case None
      have "unregisterParticipant_try r st = Inl (SyntaxError, st)"
        by (simp add: Response None unregisterParticipant_try_def)
      from unregister_resume_caught [OF this] neq show ?thesis
        by (simp add: showMessage_frame)
    next
      case (Some result)
      have "requests (unregisterParticipant_resume r st)
             = requests st @ [\<lparr>req_method = GET, req_url = ''/activities''\<rparr>]"
        using True Some Response
        by (cases "get_property result ''message''")
           (simp_all add: unregisterParticipant_resume_def unregisterParticipant_try_def Let_def
            showMessage_call_def showMessage_frame fetchActivities_def split: sum.splits)
      with True Some Response show ?thesis by simp
    qed
  qed
qed

lemma encode_chess: "encodeURIComponent ''Chess Club'' = ''Chess%20Club''"
  by code_simp

lemma encode_email: "encodeURIComponent ''b@x.com'' = ''b%40x.com''"
  by code_simp




text \<open>
  C3. The server answers a submission of the sign-up form with a status in 200..299
  and a JSON body whose field \<open>message\<close> is the string \<open>m\<close>. Then the handler shows
  \<open>m\<close> unchanged as a visible message of class \<open>success\<close>, resets the form (both
  controls return to their defaults), and calls \<open>fetchActivities\<close>, which issues
  \<open>GET /activities\<close>; the list itself changes only when that answer arrives.
\<close>

theorem signup_success_shows_message_resets_refetches:
  assumes "response_ok status" and "get_property result ''message'' = Inr (Some (JStr m))"
  shows "textContent (messageDiv (signupForm_submit_resume (Response status (Some result)) st)) = m
    \<and> classList (messageDiv (signupForm_submit_resume (Response status (Some result)) st)) = [''success'']
    \<and> visible (messageDiv (signupForm_submit_resume (Response status (Some result)) st))
    \<and> email_value (signupForm_submit_resume (Response status (Some result)) st) = email_default st
    \<and> activity_value (signupForm_submit_resume (Response status (Some result)) st) = activity_default st
    \<and> requests (signupForm_submit_resume (Response status (Some result)) st)
        = requests st @ [\<lparr>req_method = GET, req_url = ''/activities''\<rparr>]
    \<and> activitiesList (signupForm_submit_resume (Response status (Some result)) st) = activitiesList st"
proof -
  have eq: "signupForm_submit_resume (Response status (Some result)) st
      = fetchActivities (signupForm_reset (showMessage (Some (JStr m)) ''success'' st))"
    using assms by (simp add: signupForm_submit_resume_def signupForm_submit_try_def)
  have md: "messageDiv (fetchActivities (signupForm_reset s)) = messageDiv s" for s
    by (simp add: fetchActivities_def signupForm_reset_def)
  show ?thesis
    unfolding eq md
    by (simp add: shown_success visible_showMessage)
       (simp add: fetchActivities_def signupForm_reset_def showMessage_frame messageDiv_showMessage)
qed

text \<open>
  The scenario of the specification: \<open>b@x.com\<close> signs up for \<open>Chess Club\<close> and the
  server answers 200 with \<open>{"message": "Signed up b@x.com"}\<close>.
\<close>

theorem signup_success_shows_message_resets_refetches_witness:
  "response_ok 200
   \<and> textContent (messageDiv (signupForm_submit_resume signed_up (signupForm_submit filled_form)))
       = ''Signed up b@x.com''
   \<and> email_value (signupForm_submit_resume signed_up (signupForm_submit filled_form)) = []
   \<and> requests (signupForm_submit_resume signed_up (signupForm_submit filled_form))
       = [\<lparr>req_method = POST, req_url = ''/activities/Chess%20Club/signup?email=b%40x.com''\<rparr>,
          \<lparr>req_method = GET, req_url = ''/activities''\<rparr>]"
  using signup_success_shows_message_resets_refetches [of 200 "JObj [(''message'', JStr ''Signed up b@x.com'')]" "''Signed up b@x.com''"
      "signupForm_submit filled_form"]
  by (simp add: signed_up_def response_ok_def signupForm_submit_def filled_form_def
      blank_page_def encode_chess encode_email)

text \<open>
  C4. When the server answers an unregister request with a status outside 200..299,
  whatever the body, a visible message of class \<open>error\<close> is shown, no request is
  issued (\<open>fetchActivities\<close> is not called), and the rendered list and the options
  are left as they were. Only the success path refreshes: whenever the handler issues
  a request, the answer had a status in 200..299 and a JSON body, and the request is
  \<open>GET /activities\<close>.
\<close>

theorem unregister_failure_does_not_refetch:
  "(\<not> response_ok status \<longrightarrow>
      requests (unregisterParticipant_resume (Response status body) st) = requests st
    \<and> activitiesList (unregisterParticipant_resume (Response status body) st) = activitiesList st
    \<and> activitySelect (unregisterParticipant_resume (Response status body) st) = activitySelect st
    \<and> classList (messageDiv (unregisterParticipant_resume (Response status body) st)) = [''error'']
    \<and> visible (messageDiv (unregisterParticipant_resume (Response status body) st)))
   \<and> (requests (unregisterParticipant_resume r st) \<noteq> requests st \<longrightarrow>
        (\<exists>s result. r = Response s (Some result) \<and> response_ok s
           \<and> requests (unregisterParticipant_resume r st)
               = requests st @ [\<lparr>req_method = GET, req_url = ''/activities''\<rparr>]))"
  using unregister_not_ok_frame [of status body st] unregister_refresh_only_ok [of r st]
  by blast

text \<open>
  The scenario of the specification: status 400 with
  \<open>{"detail": "Participant not found"}\<close>; and a success, which does refresh.
\<close>

theorem unregister_failure_does_not_refetch_witness:
  "\<not> response_ok 400
   \<and> requests (unregisterParticipant_resume not_found blank_page) = []
   \<and> activitiesList (unregisterParticipant_resume not_found blank_page)
       = [Markup ''<p>Loading activities...</p>'']
   \<and> classList (messageDiv (unregisterParticipant_resume not_found blank_page)) = [''error'']
   \<and> textContent (messageDiv (unregisterParticipant_resume not_found blank_page))
       = ''Participant not found''
   \<and> requests (unregisterParticipant_resume (Response 200 (Some (JObj [(''message'', JStr ''ok'')]))) blank_page)
       = [\<lparr>req_method = GET, req_url = ''/activities''\<rparr>]"
  using unregister_failure_does_not_refetch [of 400 "Some (JObj [(''detail'', JStr ''Participant not found'')])" blank_page
      "Response 200 (Some (JObj [(''message'', JStr ''ok'')]))"]
  by (simp add: not_found_def response_ok_def blank_page_def unregisterParticipant_resume_def
      unregisterParticipant_try_def js_or_def messageDiv_showMessage showMessage_frame
      fetchActivities_def)

text \<open>
  C10. When the body of the answer to a sign-up or an unregister request is not JSON,
  \<open>response.json()\<close> rejects before the status is looked at. So for every status,
  and in particular outside 200..299, the \<open>catch\<close> clause runs: it shows
  \<open>Failed to unregister. Please try again.\<close> (or \<open>Failed to sign up. Please try
  again.\<close>) as an error, logs the failure, and issues no request, so
  \<open>fetchActivities\<close> is not called.
\<close>

theorem invalid_json_body_takes_catch_branch:
  "unregisterParticipant_resume (Response status None) st =
     (showMessage (Some (JStr ''Failed to unregister. Please try again.'')) ''error'' st)
       \<lparr>console := console st @ [(''Error unregistering:'', SyntaxError)]\<rparr>
   \<and> signupForm_submit_resume (Response status None) st =
     (showMessage (Some (JStr ''Failed to sign up. Please try again.'')) ''error'' st)
       \<lparr>console := console st @ [(''Error signing up:'', SyntaxError)]\<rparr>
   \<and> textContent (messageDiv (unregisterParticipant_resume (Response status None) st))
       = ''Failed to unregister. Please try again.''
   \<and> textContent (messageDiv (signupForm_submit_resume (Response status None) st))
       = ''Failed to sign up. Please try again.''
   \<and> classList (messageDiv (unregisterParticipant_resume (Response status None) st)) = [''error'']
   \<and> classList (messageDiv (signupForm_submit_resume (Response status None) st)) = [''error'']
   \<and> requests (unregisterParticipant_resume (Response status None) st) = requests st
   \<and> requests (signupForm_submit_resume (Response status None) st) = requests st"
proof -
  have u: "unregisterParticipant_try (Response status None) st = Inl (SyntaxError, st)"
    by (simp add: unregisterParticipant_try_def)
  have s: "signupForm_submit_try (Response status None) st = Inl (SyntaxError, st)"
    by (simp add: signupForm_submit_try_def)
  show ?thesis
    unfolding unregister_resume_caught [OF u] submit_resume_caught [OF s]
    by (simp add: showMessage_frame shown_error) (simp add: messageDiv_showMessage)
qed

subsection \<open>Percent-encoding\<close>

lemma below_16_cases:
  "n < 16 \<Longrightarrow> n \<in> {0, 1, 2, 3, 4, 5, 6, 7, 8, 9, 10, 11, 12, 13, 14, 15::nat}"
  by (simp add: insert_iff) arith

lemma hex_value_hex_digit: "n < 16 \<Longrightarrow> hex_value (hex_digit n) = n"
  using below_16_cases [of n]
  by (auto simp: hex_digit_def hex_value_def)

lemma hex_digit_unreserved: "n < 16 \<Longrightarrow> uri_unreserved (hex_digit n)"
  using below_16_cases [of n]
  by (auto simp: hex_digit_def uri_unreserved_def)

lemma percent_reserved: "\<not> uri_unreserved CHR ''%''"
  by (simp add: uri_unreserved_def)

lemma of_char_div_16: "(of_char (c :: char) :: nat) div 16 < 16"
proof -
  have "(of_char c :: nat) < 256" by (rule nat_of_char_less_256)
  then show ?thesis by arith
qed

lemma pct_decode_pct_encode: "pct_decode (pct_encode c @ rest) = c # pct_decode rest"
proof (cases "uri_unreserved c")
  case True
  then have "c \<noteq> CHR ''%''" using percent_reserved by auto
  with True show ?thesis by (simp add: pct_encode_def)
next
  case False
  have "hex_value (hex_digit (of_char c div 16)) = of_char c div 16"
    by (rule hex_value_hex_digit) (rule of_char_div_16)
  moreover have "hex_value (hex_digit (of_char c mod 16)) = of_char c mod 16"
    by (rule hex_value_hex_digit) simp
  ultimately show ?thesis using False by (simp add: pct_encode_def)
qed

lemma pct_decode_encodeURIComponent: "pct_decode (encodeURIComponent s) = s"
  by (induction s) (simp_all add: encodeURIComponent_def pct_decode_pct_encode)

lemma pct_encode_chars: "set (pct_encode c) \<subseteq> {x. uri_unreserved x} \<union> {CHR ''%''}"
proof (cases "uri_unreserved c")
  case True
  then show ?thesis by (simp add: pct_encode_def)
next
  case False
  have "uri_unreserved (hex_digit (of_char c div 16))"
    by (rule hex_digit_unreserved) (rule of_char_div_16)
  moreover have "uri_unreserved (hex_digit (of_char c mod 16))"
    by (rule hex_digit_unreserved) simp
  ultimately show ?thesis using False by (simp add: pct_encode_def)
qed

lemma encodeURIComponent_chars:
  "set (encodeURIComponent s) \<subseteq> {x. uri_unreserved x} \<union> {CHR ''%''}"
  using pct_encode_chars by (induction s) (auto simp: encodeURIComponent_def)

lemma encodeURIComponent_keeps_delimiters_out:
  "CHR ''/'' \<notin> set (encodeURIComponent s) \<and> CHR ''?'' \<notin> set (encodeURIComponent s)
   \<and> CHR ''&'' \<notin> set (encodeURIComponent s) \<and> CHR ''='' \<notin> set (encodeURIComponent s)
   \<and> CHR ''#'' \<notin> set (encodeURIComponent s) \<and> CHR '' '' \<notin> set (encodeURIComponent s)"
proof -
  have "\<not> uri_unreserved CHR ''/''" "\<not> uri_unreserved CHR ''?''" "\<not> uri_unreserved CHR ''&''"
    "\<not> uri_unreserved CHR ''=''" "\<not> uri_unreserved CHR ''#''" "\<not> uri_unreserved CHR '' ''"
    by (simp_all add: uri_unreserved_def)
  then show ?thesis using encodeURIComponent_chars [of s] by auto
qed

text \<open>
  C6. \<open>unregisterParticipant\<close> issues exactly
  \<open>DELETE /activities/{name}/unregister?email={email}\<close> and the submit handler
  exactly \<open>POST /activities/{name}/signup?email={email}\<close>, with the activity name
  and the email each passed through \<open>encodeURIComponent\<close>. That is percent-encoding:
  decoding gives the text back, and the encoded text holds only unreserved marks and
  \<open>%\<close>, so none of \<open>/ ? & = #\<close> or a space can break the path segment or the
  query value.
\<close>

theorem mutating_requests_percent_encoded:
  "requests (unregisterParticipant activityName email st) =
     requests st @
       [\<lparr>req_method = DELETE,
         req_url = ''/activities/'' @ encodeURIComponent activityName
                   @ ''/unregister?email='' @ encodeURIComponent email\<rparr>]
   \<and> requests (signupForm_submit st) =
     requests st @
       [\<lparr>req_method = POST,
         req_url = ''/activities/'' @ encodeURIComponent (activity_value st)
                   @ ''/signup?email='' @ encodeURIComponent (email_value st)\<rparr>]
   \<and> pct_decode (encodeURIComponent s) = s
   \<and> set (encodeURIComponent s) \<subseteq> {x. uri_unreserved x} \<union> {CHR ''%''}
   \<and> CHR ''/'' \<notin> set (encodeURIComponent s) \<and> CHR ''?'' \<notin> set (encodeURIComponent s)
   \<and> CHR ''&'' \<notin> set (encodeURIComponent s) \<and> CHR ''='' \<notin> set (encodeURIComponent s)
   \<and> CHR ''#'' \<notin> set (encodeURIComponent s) \<and> CHR '' '' \<notin> set (encodeURIComponent s)"
  using encodeURIComponent_keeps_delimiters_out [of s] encodeURIComponent_chars [of s]
  by (simp add: unregisterParticipant_def signupForm_submit_def Let_def
      pct_decode_encodeURIComponent)

theorem mutating_requests_percent_encoded_witness:
  "requests (unregisterParticipant ''Chess Club'' ''b@x.com'' filled_form) =
     [\<lparr>req_method = DELETE, req_url = ''/activities/Chess%20Club/unregister?email=b%40x.com''\<rparr>]
   \<and> requests (signupForm_submit filled_form) =
     [\<lparr>req_method = POST, req_url = ''/activities/Chess%20Club/signup?email=b%40x.com''\<rparr>]
   \<and> pct_decode ''Chess%20Club'' = ''Chess Club''"
  using mutating_requests_percent_encoded [of "''Chess Club''" "''b@x.com''" filled_form "''Chess Club''"]
  by (simp add: blank_page_def filled_form_def encode_chess encode_email)

subsection \<open>A fetch that fails, the roster, and repeated fetches\<close>

text \<open>
  C7. When \<open>fetch\<close> rejects or the body is not JSON, the \<open>try\<close> block of
  \<open>fetchActivities\<close> throws and its \<open>catch\<close> clause handles the failure: the
  children of the list are replaced by the one failure paragraph (no card stays),
  the failure is logged on the console, and nothing else changes. In particular no
  request is issued and no timer is set, so nothing is retried; and the function ends
  normally with that page.
\<close>

theorem fetchActivities_failure_replaces_list:
  "fetchActivities_try Rejected st = Inl (NetworkError, st)
   \<and> fetchActivities_try (Response status None) st = Inl (SyntaxError, st)
   \<and> fetchActivities_resume Rejected st =
       st\<lparr>activitiesList := [Markup ''<p>Failed to load activities. Please try again later.</p>''],
          console := console st @ [(''Error fetching activities:'', NetworkError)]\<rparr>
   \<and> fetchActivities_resume (Response status None) st =
       st\<lparr>activitiesList := [Markup ''<p>Failed to load activities. Please try again later.</p>''],
          console := console st @ [(''Error fetching activities:'', SyntaxError)]\<rparr>
   \<and> requests (fetchActivities_resume Rejected st) = requests st
   \<and> requests (fetchActivities_resume (Response status None) st) = requests st
   \<and> timers (fetchActivities_resume Rejected st) = timers st
   \<and> timers (fetchActivities_resume (Response status None) st) = timers st"
  by (simp add: fetchActivities_resume_def fetchActivities_try_def innerHTML_nodes_def)

theorem fetchActivities_failure_replaces_list_witness:
  "activitiesList (fetchActivities_resume Rejected (fetchActivities_resume chess_map blank_page))
     = [Markup ''<p>Failed to load activities. Please try again later.</p>'']
   \<and> console (fetchActivities_resume (Response 502 None) (fetchActivities_resume chess_map blank_page))
     = [(''Error fetching activities:'', SyntaxError)]"
  using fetchActivities_failure_replaces_list [of "fetchActivities_resume chess_map blank_page" 502]
  by (simp add: chess_map_def fetchActivities_resume_success blank_page_def)

text \<open>
  C8. In the card of every activity of a fetched map, the roster (the last child of
  the card) is the heading followed, when \<open>participants\<close> is empty, by the
  placeholder paragraph and otherwise by a list with one row per participant, in
  order: the email, and a delete button whose click listener is bound to the
  activity name and that email. A click on it calls \<open>unregisterParticipant\<close> with
  the two, which issues the \<open>DELETE\<close> request for them.
\<close>

theorem fetchActivities_renders_roster:
  assumes "i < length acts" and "acts ! i = (name, d)"
  shows "last (childNodes (activitiesList (fetchActivities_resume (Response status (Some acts)) st) ! i)) =
           Element ''div'' ''activity-participants'' []
             [Element ''h5'' [] [] [Text ''Participants''],
              if participants d = [] then
                Element ''p'' ''no-participants'' []
                  [Text ''No participants yet - be the first to sign up!'']
              else
                Element ''ul'' ''participants-list'' []
                  (map (\<lambda>participant.
                          Element ''li'' [] []
                            [Element ''span'' ''participant-email'' []
                               (if participant = [] then [] else [Text participant]),
                             Element ''button'' ''delete-participant-btn''
                               [UnregisterClick name participant]
                               [Text [CHR 0xE2, CHR 0x9C, CHR 0x95]]])
                       (participants d))]
         \<and> requests (click (UnregisterClick name participant) st') =
             requests st' @
               [\<lparr>req_method = DELETE,
                 req_url = ''/activities/'' @ encodeURIComponent name
                           @ ''/unregister?email='' @ encodeURIComponent participant\<rparr>]"
proof -
  have "activitiesList (fetchActivities_resume (Response status (Some acts)) st) ! i
          = activityCard name d"
    using assms by (simp add: fetchActivities_resume_success)
  moreover have "participant_li name = (\<lambda>participant.
                          Element ''li'' [] []
                            [Element ''span'' ''participant-email'' []
                               (if participant = [] then [] else [Text participant]),
                             Element ''button'' ''delete-participant-btn''
                               [UnregisterClick name participant]
                               [Text [CHR 0xE2, CHR 0x9C, CHR 0x95]]])"
    by (rule ext) (simp add: participant_li_def textContent_nodes_def)
  ultimately show ?thesis
    by (simp add: activityCard_def participantsDiv_def textContent_nodes_def
        unregisterParticipant_def)
qed

theorem fetchActivities_renders_roster_witness:
  "last (childNodes (activitiesList (fetchActivities_resume
      (Response 200 (Some [(''Chess Club'', chess_details), (''Art'', empty_details)])) blank_page) ! 0)) =
     Element ''div'' ''activity-participants'' []
       [Element ''h5'' [] [] [Text ''Participants''],
        Element ''ul'' ''participants-list'' []
          [Element ''li'' [] []
             [Element ''span'' ''participant-email'' [] [Text ''a@x.com''],
              Element ''button'' ''delete-participant-btn''
                [UnregisterClick ''Chess Club'' ''a@x.com'']
                [Text [CHR 0xE2, CHR 0x9C, CHR 0x95]]]]]
   \<and> last (childNodes (activitiesList (fetchActivities_resume
      (Response 200 (Some [(''Chess Club'', chess_details), (''Art'', empty_details)])) blank_page) ! 1)) =
     Element ''div'' ''activity-participants'' []
       [Element ''h5'' [] [] [Text ''Participants''],
        Element ''p'' ''no-participants'' []
          [Text ''No participants yet - be the first to sign up!'']]"
  using fetchActivities_renders_roster [of 0 "[(''Chess Club'', chess_details), (''Art'', empty_details)]" "''Chess Club''"
      chess_details 200 blank_page "''a@x.com''" blank_page]
    fetchActivities_renders_roster [of 1 "[(''Chess Club'', chess_details), (''Art'', empty_details)]" "''Art''"
      empty_details 200 blank_page "''a@x.com''" blank_page]
  by (simp add: chess_details_def empty_details_def)

text \<open>
  C9 does not hold of the script. A successful fetch replaces the cards, but it
  appends to the options of the selection control without clearing them: after two
  successful fetches of the same one-activity map there is one card and there are
  two \<open>Chess Club\<close> options after the options the page had before.
\<close>

theorem fetchActivities_twice_duplicates_options:
  "activitySelect (fetchActivities_resume chess_map (fetchActivities_resume chess_map st)) =
     activitySelect st @
       [\<lparr>option_value = ''Chess Club'', option_text = ''Chess Club''\<rparr>,
        \<lparr>option_value = ''Chess Club'', option_text = ''Chess Club''\<rparr>]
   \<and> activitiesList (fetchActivities_resume chess_map (fetchActivities_resume chess_map st)) =
     [activityCard ''Chess Club'' chess_details]
   \<and> length (activitySelect (fetchActivities_resume chess_map (fetchActivities_resume chess_map blank_page))) = 3"
  by (simp add: chess_map_def fetchActivities_resume_success blank_page_def)

end
